theory Spec2Isabelle
  imports Complex_Main
begin

section \<open>Values of the host language\<close>

text \<open>
  Timeouts are JavaScript numbers. The program uses them as whole milliseconds (the
  sandbox takes an integral timeout, and the budget is only ever reduced by
  \<open>Math.ceil\<close> of a reading), with \<open>Number.POSITIVE_INFINITY\<close> as the default of
  \<open>matches\<close>. \<open>Fin k\<close> is the finite number \<open>k\<close>, \<open>PosInf\<close> is \<open>+Infinity\<close>.
  Numbers that are not whole are left out; the sandbox refuses one as a timeout.
\<close>

datatype number = Fin int | PosInf

text \<open>\<open>Math.min\<close> on these numbers.\<close>

fun Math_min :: "number \<Rightarrow> number \<Rightarrow> number" where
  "Math_min (Fin a) (Fin b) = Fin (min a b)"
| "Math_min (Fin a) PosInf = Fin a"
| "Math_min PosInf (Fin b) = Fin b"
| "Math_min PosInf PosInf = PosInf"

text \<open>
  \<open>x - k\<close> for a finite \<open>k\<close>, as IEEE arithmetic computes it: \<open>Infinity - k\<close> is
  \<open>Infinity\<close>.
\<close>

fun minus_ms :: "number \<Rightarrow> int \<Rightarrow> number" where
  "minus_ms (Fin a) k = Fin (a - k)"
| "minus_ms PosInf k = PosInf"

text \<open>
  A value that may be \<open>undefined\<close>: what a property read or a function call gives.
\<close>

datatype 'a js = Undefined | Val 'a

text \<open>
  A thrown value. The program looks at one property of it only, \<open>code\<close>, read with
  \<open>error?.code\<close>: a thrown \<open>null\<close> or \<open>undefined\<close>, or an object without the
  property, has \<open>code = None\<close>.
\<close>

datatype js_error = JsError (code: "string option") (message: string)

section \<open>functionTimeout.ts\<close>

text \<open>
  What calling a synchronous function with its arguments does, seen from outside: it
  needs some wall-clock time and then returns a value or throws, or it never completes.
  Times are milliseconds, as exact rationals.
\<close>

datatype duration = Ms rat | Forever

datatype 'a outcome = Returns "'a js" | Throws js_error

datatype 'a thunk = Thunk (cost: duration) (outcome: "'a outcome")

text \<open>
  The evaluation context: an object whose properties \<open>functionToRun\<close> and
  \<open>returnValue\<close> carry the closure into the script and the result out of it.
  \<open>vm.createContext()\<close> gives one with neither property set.
\<close>

record 'a vmContext =
  functionToRun :: "'a thunk option"
  returnValue :: "'a js"

definition createContext :: "'a vmContext" where
  "createContext = \<lparr>functionToRun = None, returnValue = Undefined\<rparr>"

text \<open>
  Whether a run of the given length ends within the timeout handed to the sandbox.
  No timeout means no enforced cutoff.
\<close>

fun completes :: "duration \<Rightarrow> number option \<Rightarrow> bool" where
  "completes Forever _ = False"
| "completes (Ms d) None = True"
| "completes (Ms d) (Some PosInf) = True"
| "completes (Ms d) (Some (Fin t)) = (d \<le> of_int t)"

fun enforced :: "number option \<Rightarrow> bool" where
  "enforced (Some (Fin t)) = True"
| "enforced _ = False"

text \<open>
  The timeouts the sandbox takes: none, or a whole number of milliseconds from 1 to
  4294967295. Any other number it refuses with a range error, before anything is run.
  The message of that error, which quotes the value received, is shortened here.
\<close>

fun accepted :: "number option \<Rightarrow> bool" where
  "accepted None = True"
| "accepted (Some (Fin t)) = (1 \<le> t \<and> t \<le> 4294967295)"
| "accepted (Some PosInf) = False"

definition rangeError :: js_error where
  "rangeError =
     JsError (Some ''ERR_OUT_OF_RANGE'') ''The value of options.timeout is out of range''"

definition timeoutError :: js_error where
  "timeoutError =
     JsError (Some ''ERR_SCRIPT_EXECUTION_TIMEOUT'') ''Script execution timed out''"

definition referenceError :: js_error where
  "referenceError = JsError None ''functionToRun is not defined''"

text \<open>
  Modelled from the spec: the sandbox primitive \<open>script.runInNewContext(context,
  {timeout})\<close> of the host platform, for the one script of this file,
  \<open>returnValue = functionToRun()\<close>. The spec gives it as the capability to run a
  closure in an isolated evaluation context with a hard wall-clock deadline, forcibly
  terminating it on breach and raising the timeout error; an error of the closure
  propagates, and without a timeout there is no cutoff. The platform checks the timeout
  before it runs the script: for one it does not take it raises its range error, and the
  closure is not called. The result is \<open>None\<close> when the call never returns.
\<close>

definition runInNewContext ::
  "'a vmContext \<Rightarrow> number option \<Rightarrow> (js_error + 'a vmContext) option" where
  "runInNewContext context timeout =
     (if \<not> accepted timeout then Some (Inl rangeError)
      else case functionToRun context of
             None \<Rightarrow> Some (Inl referenceError)
           | Some f \<Rightarrow>
               if completes (cost f) timeout then
                 (case outcome f of
                    Returns v \<Rightarrow> Some (Inr (context\<lparr>returnValue := v\<rparr>))
                  | Throws e \<Rightarrow> Some (Inl e))
               else if enforced timeout then Some (Inl timeoutError)
               else None)"

text \<open>
  \<open>functionTimeout(function_, {timeout, context})(...arguments_)\<close>: the wrapped
  function applied. The thunk \<open>func\<close> stands for \<open>function_\<close> applied to the
  arguments. The wrapper stores the closure on the context, runs the script under the
  timeout and returns what the context's \<open>returnValue\<close> then holds. The \<open>name\<close>
  the wrapper is given plays no part in any call and is left out.
\<close>

definition functionTimeout ::
  "'a thunk \<Rightarrow> number option \<Rightarrow> 'a vmContext \<Rightarrow> (js_error + 'a js) option" where
  "functionTimeout func timeout context =
     (let context1 = context\<lparr>functionToRun := Some func\<rparr> in
      case runInNewContext context1 timeout of
        None \<Rightarrow> None
      | Some (Inl error) \<Rightarrow> Some (Inl error)
      | Some (Inr context2) \<Rightarrow> Some (Inr (returnValue context2)))"

text \<open>\<open>isTimeoutError\<close>: \<open>error?.code === "ERR_SCRIPT_EXECUTION_TIMEOUT"\<close>.\<close>

definition isTimeoutError :: "js_error \<Rightarrow> bool" where
  "isTimeoutError error = (code error = Some ''ERR_SCRIPT_EXECUTION_TIMEOUT'')"

section \<open>Regular expressions of the host platform\<close>

text \<open>
  A \<open>RegExp\<close> object: its source and flags, which never change, and the mutable scan
  position \<open>lastIndex\<close>.
\<close>

record regExp =
  source :: string
  flags :: string
  lastIndex :: nat

definition global :: "regExp \<Rightarrow> bool" where
  "global r = (CHR ''g'' \<in> set (flags r))"

definition sticky :: "regExp \<Rightarrow> bool" where
  "sticky r = (CHR ''y'' \<in> set (flags r))"

text \<open>
  The regex objects live in a store, since the program receives them by reference:
  \<open>cells\<close> gives the object at each address and \<open>used\<close> is the first address not
  allocated yet.
\<close>

type_synonym ref = nat

record heap =
  cells :: "ref \<Rightarrow> regExp"
  used :: nat

text \<open>
  \<open>structuredClone(regex)\<close>: a new object with the source and flags of the old one;
  the scan position is not carried over.
\<close>

definition structuredClone :: "heap \<Rightarrow> ref \<Rightarrow> ref \<times> heap" where
  "structuredClone h r =
     (used h,
      h\<lparr>cells := (cells h)(used h := (cells h r)\<lparr>lastIndex := 0\<rparr>), used := Suc (used h)\<rparr>)"

text \<open>
  The regex engine is a black box. For a source, flags, a subject string and a position
  it says whether the pattern matches starting exactly at that position, and then how
  many characters it matches and what each capture group of the pattern holds, the
  groups in the order of their numbers: the name of the group, if it has one, and the
  text it captured (an unmatched group holds nothing).
\<close>

record found =
  len :: nat
  caps :: "(string option \<times> string option) list"

type_synonym engine = "string \<Rightarrow> string \<Rightarrow> string \<Rightarrow> nat \<Rightarrow> found option"

text \<open>
  The search of \<open>RegExp.prototype.exec\<close>: try the position, then the next, up to the
  end of the string; a sticky regex tries the first position only.
\<close>

function scan :: "engine \<Rightarrow> regExp \<Rightarrow> string \<Rightarrow> nat \<Rightarrow> (nat \<times> found) option" where
  "scan eng r s i =
     (if length s < i then None
      else case eng (source r) (flags r) s i of
             Some f \<Rightarrow> Some (i, f)
           | None \<Rightarrow> if sticky r then None else scan eng r s (Suc i))"
  by pat_completeness auto
termination
  by (relation "measure (\<lambda>(eng, r, s, i). Suc (length s) - i)") auto

declare scan.simps [simp del]

text \<open>
  The array \<open>exec\<close> returns: element 0 (the matched text), the further elements (the
  capture groups), and the properties \<open>index\<close>, \<open>groups\<close> and \<open>input\<close>. Behind the
  matched text the array holds the text of every capture group of the pattern at the
  number of the group, whether the group has a name or not. The property \<open>groups\<close>
  holds the text of the groups that have a name, by name, and is \<open>undefined\<close> when no
  group of the pattern has one.
\<close>

fun named_of :: "(string option \<times> string option) list \<Rightarrow> (string \<rightharpoonup> string)" where
  "named_of [] = Map.empty"
| "named_of ((None, v) # cs) = named_of cs"
| "named_of ((Some name, v) # cs) = (named_of cs)(name := v)"

definition named :: "(string option \<times> string option) list \<Rightarrow> (string \<rightharpoonup> string) option" where
  "named cs = (if list_all (\<lambda>c. fst c = None) cs then None else Some (named_of cs))"

record execResult =
  res0 :: string
  res_tail :: "string option list"
  res_index :: nat
  res_groups :: "(string \<rightharpoonup> string) option"
  res_input :: string

definition mkResult :: "string \<Rightarrow> nat \<Rightarrow> found \<Rightarrow> execResult" where
  "mkResult s p f =
     \<lparr>res0 = take (len f) (drop p s), res_tail = map snd (caps f), res_index = p,
      res_groups = named (caps f), res_input = s\<rparr>"

text \<open>
  \<open>regex.exec(string)\<close> on one object: \<open>null\<close> (here \<open>None\<close>) or the result array,
  and the object afterwards. A global or sticky regex starts at its \<open>lastIndex\<close> and
  leaves the end of the match there, or 0 after a failure; any other regex starts at 0
  and is left as it was.
\<close>

definition exec_obj :: "engine \<Rightarrow> regExp \<Rightarrow> string \<Rightarrow> execResult option \<times> regExp" where
  "exec_obj eng r s =
     (let tracked = (global r \<or> sticky r);
          start = (if tracked then lastIndex r else 0)
      in case scan eng r s start of
           None \<Rightarrow> (None, if tracked then r\<lparr>lastIndex := 0\<rparr> else r)
         | Some (p, f) \<Rightarrow>
             (Some (mkResult s p f), if tracked then r\<lparr>lastIndex := p + len f\<rparr> else r))"

definition exec :: "engine \<Rightarrow> heap \<Rightarrow> ref \<Rightarrow> string \<Rightarrow> execResult option \<times> heap" where
  "exec eng h r s =
     (let (res, obj) = exec_obj eng (cells h r) s
      in (res, h\<lparr>cells := (cells h)(r := obj)\<rparr>))"

text \<open>\<open>regex.test(string)\<close>: whether \<open>exec\<close> finds a match.\<close>

definition test :: "engine \<Rightarrow> heap \<Rightarrow> ref \<Rightarrow> string \<Rightarrow> bool \<times> heap" where
  "test eng h r s = (let (res, h') = exec eng h r s in (res \<noteq> None, h'))"

text \<open>
  \<open>string.matchAll(regex)\<close>: a type error for a regex without the global flag, and
  otherwise an iterator that owns a copy of the regex, made with the source, the flags
  and the current \<open>lastIndex\<close> of the original. Each \<open>next()\<close> runs \<open>exec\<close> on
  the copy; for a global regex an empty match moves the copy's \<open>lastIndex\<close> one
  further, and a regex that is not global yields at most once. Positions count the
  characters of the string one by one; the step of two that the unicode flags take over
  a surrogate pair is left out.
\<close>

record cursor =
  matcher :: regExp
  subject :: string
  finished :: bool

definition matchAllError :: js_error where
  "matchAllError =
     JsError None ''String.prototype.matchAll called with a non-global RegExp argument''"

definition new_cursor :: "regExp \<Rightarrow> string \<Rightarrow> cursor" where
  "new_cursor r s = \<lparr>matcher = r, subject = s, finished = False\<rparr>"

definition matchAll :: "regExp \<Rightarrow> string \<Rightarrow> js_error + cursor" where
  "matchAll r s = (if \<not> global r then Inl matchAllError else Inr (new_cursor r s))"

datatype iterResult = IterValue execResult | IterDone

definition next_match :: "engine \<Rightarrow> cursor \<Rightarrow> iterResult \<times> cursor" where
  "next_match eng c =
     (if finished c then (IterDone, c)
      else case exec_obj eng (matcher c) (subject c) of
             (None, m) \<Rightarrow> (IterDone, c\<lparr>matcher := m, finished := True\<rparr>)
           | (Some res, m) \<Rightarrow>
               if global (matcher c) then
                 (IterValue res,
                  c\<lparr>matcher := (if res0 res = [] then m\<lparr>lastIndex := Suc (lastIndex m)\<rparr> else m)\<rparr>)
               else (IterValue res, c\<lparr>matcher := m, finished := True\<rparr>))"

section \<open>index.ts\<close>

record Match =
  match :: string
  index :: nat
  groups :: "string option list"
  namedGroups :: "string \<rightharpoonup> string"
  input :: string

definition resultToMatch :: "execResult \<Rightarrow> Match" where
  "resultToMatch result =
     \<lparr>match = res0 result,
      index = res_index result,
      groups = res_tail result,
      namedGroups = (case res_groups result of None \<Rightarrow> Map.empty | Some g \<Rightarrow> g),
      input = res_input result\<rparr>"

text \<open>
  What the surroundings contribute to one guarded call: the time the closure needs, an
  error it raises of its own (an engine fault), if any, and what the stopwatch started
  before the call reads once the call has returned. Nothing relates the reading to the
  time the closure needs: the stopwatch runs around the whole guarded call.
\<close>

record conditions =
  takes :: duration
  fault :: "js_error option"
  stopwatch :: rat

definition run_as :: "conditions \<Rightarrow> 'a \<Rightarrow> 'a thunk" where
  "run_as w v =
     Thunk (takes w) (case fault w of None \<Rightarrow> Returns (Val v) | Some e \<Rightarrow> Throws e)"

definition typeError :: js_error where
  "typeError = JsError None ''Cannot read properties of undefined''"

text \<open>
  \<open>isMatch(regex, string, {timeout})\<close>. The closure clones the regex and tests the
  clone. When it has returned, the store holds the clone as the test left it; when it
  throws or is cut off, whatever it did is confined to a clone that nothing refers to,
  and the store is given as it was.
\<close>

definition isMatch ::
  "engine \<Rightarrow> conditions \<Rightarrow> heap \<Rightarrow> ref \<Rightarrow> string \<Rightarrow> number option
     \<Rightarrow> ((js_error + bool js) \<times> heap) option" where
  "isMatch eng w h regex string timeout =
     (let (clone, h1) = structuredClone h regex;
          (b, h2) = test eng h1 clone string
      in case functionTimeout (run_as w b) timeout createContext of
           None \<Rightarrow> None
         | Some (Inr v) \<Rightarrow> Some (Inr v, h2)
         | Some (Inl error) \<Rightarrow>
             if isTimeoutError error then Some (Inr (Val False), h)
             else Some (Inl error, h))"

text \<open>
  \<open>firstMatch(regex, string, {timeout})\<close>; \<open>undefined\<close> is the absent result.
\<close>

definition firstMatch ::
  "engine \<Rightarrow> conditions \<Rightarrow> heap \<Rightarrow> ref \<Rightarrow> string \<Rightarrow> number option
     \<Rightarrow> ((js_error + Match js) \<times> heap) option" where
  "firstMatch eng w h regex string timeout =
     (let (clone, h1) = structuredClone h regex;
          (res, h2) = exec eng h1 clone string
      in case functionTimeout (run_as w res) timeout createContext of
           None \<Rightarrow> None
         | Some (Inr result) \<Rightarrow>
             (case result of
                Val None \<Rightarrow> Some (Inr Undefined, h2)
              | Val (Some r) \<Rightarrow> Some (Inr (Val (resultToMatch r)), h2)
              | Undefined \<Rightarrow> Some (Inl typeError, h2))
         | Some (Inl error) \<Rightarrow>
             if isTimeoutError error then Some (Inr Undefined, h)
             else Some (Inl error, h))"

text \<open>
  \<open>matches(regex, string, {timeout, matchTimeout})\<close>. The call checks the global flag
  and returns the iterable: the closure over \<open>regex\<close>, \<open>string\<close>, the variable
  \<open>timeout\<close> (which the iterations update) and \<open>matchTimeout\<close>. An option left out
  is \<open>None\<close> and defaults to \<open>+Infinity\<close>.
\<close>

record matchesOptions =
  opt_timeout :: "number option"
  opt_matchTimeout :: "number option"

record iterable =
  it_regex :: ref
  it_string :: string
  it_timeout :: number
  it_matchTimeout :: number

definition usageError :: js_error where
  "usageError =
     JsError None
       ''The regex must have the global flag, otherwise, use `firstMatch()` instead''"

definition matches :: "heap \<Rightarrow> ref \<Rightarrow> string \<Rightarrow> matchesOptions \<Rightarrow> js_error + iterable" where
  "matches h regex string options =
     (let timeout = (case opt_timeout options of None \<Rightarrow> PosInf | Some t \<Rightarrow> t);
          matchTimeout = (case opt_matchTimeout options of None \<Rightarrow> PosInf | Some t \<Rightarrow> t)
      in if \<not> global (cells h regex) then Inl usageError
         else Inr \<lparr>it_regex = regex, it_string = string, it_timeout = timeout,
                   it_matchTimeout = matchTimeout\<rparr>)"

text \<open>
  One turn of the \<open>while (true)\<close> loop of the generator, with the \<open>catch\<close> around it.
  Each turn makes one guarded call; \<open>call\<close> records it: the value of \<open>timeout\<close>
  when the turn began, the timeout handed to \<open>functionTimeout\<close>, how the call went,
  and the value of \<open>timeout\<close> when the turn ended.
\<close>

datatype ending = Finished | Raised js_error | Hung

datatype stepOutcome = Yielded | Exhausted | Threw js_error | NoReturn

record call =
  before :: number
  deadline :: "number option"
  went :: stepOutcome
  after :: number

datatype stepResult = Stop ending call | Go Match cursor call

definition step :: "engine \<Rightarrow> conditions \<Rightarrow> number \<Rightarrow> cursor \<Rightarrow> number \<Rightarrow> stepResult" where
  "step eng w matchTimeout matches2 timeout =
     (let limit = (if timeout \<noteq> PosInf \<or> matchTimeout \<noteq> PosInf
                   then Some (Math_min timeout matchTimeout) else None);
          (r, matches2') = next_match eng matches2
      in case functionTimeout (run_as w r) limit createContext of
           None \<Rightarrow>
             Stop Hung \<lparr>before = timeout, deadline = limit, went = NoReturn, after = timeout\<rparr>
         | Some (Inl error) \<Rightarrow>
             Stop (if \<not> isTimeoutError error then Raised error else Finished)
               \<lparr>before = timeout, deadline = limit, went = Threw error, after = timeout\<rparr>
         | Some (Inr Undefined) \<Rightarrow>
             Stop (Raised typeError)
               \<lparr>before = timeout, deadline = limit, went = Threw typeError, after = timeout\<rparr>
         | Some (Inr (Val IterDone)) \<Rightarrow>
             Stop Finished
               \<lparr>before = timeout, deadline = limit, went = Exhausted,
                after = minus_ms timeout \<lceil>stopwatch w\<rceil>\<rparr>
         | Some (Inr (Val (IterValue value))) \<Rightarrow>
             Go (resultToMatch value) matches2'
               \<lparr>before = timeout, deadline = limit, went = Yielded,
                after = minus_ms timeout \<lceil>stopwatch w\<rceil>\<rparr>)"

text \<open>
  The loop, for a consumer that takes every element: what was yielded, how the sequence
  ended, the guarded calls made, and the value \<open>timeout\<close> is left with. \<open>world k\<close>
  gives the conditions of the \<open>k\<close>-th guarded call.
\<close>

record iteration =
  yielded :: "Match list"
  ending :: ending
  calls :: "call list"
  left :: number

definition unfinished :: "cursor \<Rightarrow> nat" where
  "unfinished c =
     (if finished c then 0 else Suc (Suc (length (subject c)) - lastIndex (matcher c)))"

text \<open>
  Each turn that yields moves the cursor on: the search finds a match at or after the
  scan position and within the string, and the scan position ends up behind the start
  of that match. This is what makes the loop stop.
\<close>

lemma scan_bounds:
  "scan eng r s i = Some (p, f) \<Longrightarrow> i \<le> p \<and> p \<le> length s \<and> eng (source r) (flags r) s p = Some f"
proof (induction eng r s i rule: scan.induct)
  case (1 eng r s i)
  show ?case
  proof (cases "length s < i")
    case True
    with "1.prems" show ?thesis by (simp add: scan.simps)
  next
    case False
    show ?thesis
    proof (cases "eng (source r) (flags r) s i")
      case (Some g)
      with False "1.prems" show ?thesis by (simp add: scan.simps [of eng r s i])
    next
      case None
      with False "1.prems" have st: "\<not> sticky r" and rec: "scan eng r s (Suc i) = Some (p, f)"
        by (auto simp: scan.simps [of eng r s i] split: if_splits)
      from "1.IH" [OF False None st rec] show ?thesis by simp
    qed
  qed
qed

lemma functionTimeout_run_as:
  "functionTimeout (run_as w v) d createContext =
     (if \<not> accepted d then Some (Inl rangeError)
      else if completes (takes w) d then
        (case fault w of None \<Rightarrow> Some (Inr (Val v)) | Some e \<Rightarrow> Some (Inl e))
      else if enforced d then Some (Inl timeoutError) else None)"
  by (simp add: functionTimeout_def runInNewContext_def run_as_def createContext_def
      split: option.splits)

lemma next_match_unfinished:
  assumes "next_match eng c = (IterValue v, c')"
  shows "unfinished c' < unfinished c"
proof -
  from assms have nf: "\<not> finished c"
    by (auto simp: next_match_def split: if_splits)
  obtain res m where ex: "exec_obj eng (matcher c) (subject c) = (res, m)"
    by (cases "exec_obj eng (matcher c) (subject c)")
  show ?thesis
  proof (cases "global (matcher c)")
    case False
    with assms nf ex have "finished c'"
      by (auto simp: next_match_def split: option.splits)
    with nf show ?thesis by (simp add: unfinished_def)
  next
    case True
    with ex obtain p f where sc: "scan eng (matcher c) (subject c) (lastIndex (matcher c)) = Some (p, f)"
      and m: "m = (matcher c)\<lparr>lastIndex := p + len f\<rparr>" and r: "res = Some (mkResult (subject c) p f)"
      using assms nf
      by (auto simp: next_match_def exec_obj_def Let_def split: option.splits prod.splits if_splits)
    from scan_bounds [OF sc] have b: "lastIndex (matcher c) \<le> p" "p \<le> length (subject c)" by simp_all
    from assms nf ex True r m
    have c': "c' = c\<lparr>matcher := (if res0 (mkResult (subject c) p f) = [] then m\<lparr>lastIndex := Suc (lastIndex m)\<rparr> else m)\<rparr>"
      by (auto simp: next_match_def)
    have "lastIndex (matcher c) < lastIndex (matcher c')"
      using b c' m by (auto simp: mkResult_def)
    moreover have "\<not> finished c'" "subject c' = subject c" using c' nf by auto
    ultimately show ?thesis using nf b by (simp add: unfinished_def)
  qed
qed

lemma step_Go:
  assumes "step eng w mt c t = Go m c' k"
  shows "\<exists>v. next_match eng c = (IterValue v, c') \<and> m = resultToMatch v"
  using assms
  by (auto simp: step_def Let_def functionTimeout_run_as
      split: prod.splits option.splits sum.splits js.splits iterResult.splits if_splits)

function loop ::
  "engine \<Rightarrow> (nat \<Rightarrow> conditions) \<Rightarrow> number \<Rightarrow> nat \<Rightarrow> cursor \<Rightarrow> number \<Rightarrow> iteration" where
  "loop eng world matchTimeout n matches2 timeout =
     (case step eng (world n) matchTimeout matches2 timeout of
        Stop e c \<Rightarrow> \<lparr>yielded = [], ending = e, calls = [c], left = after c\<rparr>
      | Go m matches2' c \<Rightarrow>
          (let rest = loop eng world matchTimeout (Suc n) matches2' (after c)
           in rest\<lparr>yielded := m # yielded rest, calls := c # calls rest\<rparr>))"
  by pat_completeness auto
termination
  by (relation "measure (\<lambda>(eng, world, matchTimeout, n, matches2, timeout). unfinished matches2)")
    (auto dest!: step_Go dest: next_match_unfinished)

declare loop.simps [simp del]

text \<open>
  One iteration of the iterable, \<open>[Symbol.iterator]()\<close> driven to its end: it builds
  the cursor with \<open>string.matchAll(regex)\<close> and runs the loop. The variable
  \<open>timeout\<close> belongs to the iterable, so the iterable is returned with the value the
  loop left in it. \<open>n\<close> is the number of guarded calls made before.
\<close>

definition iterate ::
  "engine \<Rightarrow> (nat \<Rightarrow> conditions) \<Rightarrow> nat \<Rightarrow> heap \<Rightarrow> iterable \<Rightarrow> iteration \<times> iterable" where
  "iterate eng world n h it =
     (case matchAll (cells h (it_regex it)) (it_string it) of
        Inl error \<Rightarrow>
          (\<lparr>yielded = [],
            ending = (if \<not> isTimeoutError error then Raised error else Finished),
            calls = [], left = it_timeout it\<rparr>,
           it)
      | Inr matches2 \<Rightarrow>
          (let r = loop eng world (it_matchTimeout it) n matches2 (it_timeout it)
           in (r, it\<lparr>it_timeout := left r\<rparr>)))"

section \<open>The plain scan of the specification\<close>




section \<open>Notions used to state the properties\<close>






text \<open>
  The text of the capture groups that have no name, in order: what the spec says the
  field \<open>groups\<close> of a match holds.
\<close>

definition unnamed :: "(string option \<times> string option) list \<Rightarrow> string option list" where
  "unnamed cs = map snd (filter (\<lambda>c. fst c = None) cs)"



section \<open>A concrete engine\<close>

text \<open>
  The engine on the two sources used in the scenarios of the spec, \<open>\d+\<close> and \<open>x+\<close>:
  at a position each matches the longest run of its characters that starts there, if
  there is one, and has no groups. And on a source with two capture groups, the first of
  them named, \<open>(?<n>\d+)(x)?\<close>: the longest run of digits, captured by the group
  \<open>n\<close>, and an \<open>x\<close> behind it if there is one, captured by the second group.
\<close>

definition digit :: "char \<Rightarrow> bool" where
  "digit c = (c \<in> set ''0123456789'')"

definition run_of :: "(char \<Rightarrow> bool) \<Rightarrow> string \<Rightarrow> nat \<Rightarrow> found option" where
  "run_of P s i =
     (let run = takeWhile P (drop i s)
      in if run = [] then None else Some \<lparr>len = length run, caps = []\<rparr>)"

definition digits_source :: string where
  "digits_source = CHR 0x5C # ''d+''"

definition tagged_source :: string where
  "tagged_source = ''(?<n>'' @ digits_source @ '')(x)?''"

definition tagged :: "string \<Rightarrow> nat \<Rightarrow> found option" where
  "tagged s i =
     (let run = takeWhile digit (drop i s);
          rest = drop (i + length run) s
      in if run = [] then None
         else if take 1 rest = ''x'' then
           Some \<lparr>len = Suc (length run), caps = [(Some ''n'', Some run), (None, Some ''x'')]\<rparr>
         else Some \<lparr>len = length run, caps = [(Some ''n'', Some run), (None, None)]\<rparr>)"

definition small_engine :: engine where
  "small_engine src fl s i =
     (if src = digits_source then run_of digit s i
      else if src = ''x+'' then run_of (\<lambda>c. c = CHR ''x'') s i
      else if src = tagged_source then tagged s i
      else None)"

section \<open>Concrete inputs\<close>

text \<open>
  A closure that throws, after one millisecond, an error that carries the code of the
  sandbox's timeout error: for instance a function that makes a guarded call of its own
  and lets that call's timeout error escape.
\<close>

definition inner_timeout :: js_error where
  "inner_timeout = JsError (Some ''ERR_SCRIPT_EXECUTION_TIMEOUT'') ''inner call timed out''"

definition nested_guard :: "unit thunk" where
  "nested_guard = Thunk (Ms 1) (Throws inner_timeout)"

text \<open>A store with one regex, \<open>/x+/\<close>, which has no global flag.\<close>

definition plain_heap :: heap where
  "plain_heap = \<lparr>cells = (\<lambda>a. \<lparr>source = ''x+'', flags = [], lastIndex = 0\<rparr>), used = 1\<rparr>"

text \<open>A store with one regex, \<open>/(?<n>\d+)(x)?/\<close>.\<close>

definition tagged_heap :: heap where
  "tagged_heap = \<lparr>cells = (\<lambda>a. \<lparr>source = tagged_source, flags = [], lastIndex = 0\<rparr>), used = 1\<rparr>"

text \<open>
  A store with one regex, \<open>/\d+/g\<close>, whose scan position an earlier use has left at 2.
\<close>

definition digits_heap :: heap where
  "digits_heap =
     \<lparr>cells = (\<lambda>a. \<lparr>source = digits_source, flags = ''g'', lastIndex = 2\<rparr>), used = 1\<rparr>"

text \<open>
  Conditions of a guarded call: one that returns after 0.4 ms, one that never completes
  (catastrophic backtracking), and one in which the engine throws an error of its own.
\<close>

definition calm :: conditions where
  "calm = \<lparr>takes = Ms (2 / 5), fault = None, stopwatch = 2 / 5\<rparr>"

definition stuck :: conditions where
  "stuck = \<lparr>takes = Forever, fault = None, stopwatch = 0\<rparr>"

definition engine_fault :: js_error where
  "engine_fault = JsError None ''Maximum call stack size exceeded''"

definition faulty :: conditions where
  "faulty = \<lparr>takes = Ms (2 / 5), fault = Some engine_fault, stopwatch = 2 / 5\<rparr>"

text \<open>
  A store with one regex, \<open>/\d+/g\<close>, fresh: its scan position is 0.
\<close>

definition scenario_heap :: heap where
  "scenario_heap =
     \<lparr>cells = (\<lambda>a. \<lparr>source = digits_source, flags = ''g'', lastIndex = 0\<rparr>), used = 1\<rparr>"

text \<open>
  The iterable that \<open>matches\<close> returns for the regex at address 0 and the subject of
  the scenario, with the given budgets; and the three matches of the scenario.
\<close>

definition scenario :: "number \<Rightarrow> number \<Rightarrow> iterable" where
  "scenario t mt = \<lparr>it_regex = 0, it_string = ''a1 b22 c333'', it_timeout = t, it_matchTimeout = mt\<rparr>"

definition found1 :: Match where
  "found1 = \<lparr>match = ''1'', index = 1, groups = [], namedGroups = Map.empty, input = ''a1 b22 c333''\<rparr>"

definition found22 :: Match where
  "found22 = \<lparr>match = ''22'', index = 4, groups = [], namedGroups = Map.empty, input = ''a1 b22 c333''\<rparr>"

definition found333 :: Match where
  "found333 = \<lparr>match = ''333'', index = 8, groups = [], namedGroups = Map.empty, input = ''a1 b22 c333''\<rparr>"

text \<open>
  A call that returns after 0.4 ms while the stopwatch around it reads 1.2 ms; a run in
  which the engine fails on the second call; a run in which the second call never
  completes.
\<close>

definition slow_clock :: conditions where
  "slow_clock = \<lparr>takes = Ms (2 / 5), fault = None, stopwatch = 6 / 5\<rparr>"



section \<open>The deadline executor\<close>

lemma functionTimeout_eq:
  "functionTimeout f t ctx =
     (if \<not> accepted t then Some (Inl rangeError)
      else if completes (cost f) t then
        (case outcome f of Returns v \<Rightarrow> Some (Inr v) | Throws e \<Rightarrow> Some (Inl e))
      else if enforced t then Some (Inl timeoutError) else None)"
  by (simp add: functionTimeout_def runInNewContext_def split: outcome.splits)

lemma isTimeoutError_timeoutError: "isTimeoutError timeoutError"
  by (simp add: isTimeoutError_def timeoutError_def)

lemma isTimeoutError_rangeError: "\<not> isTimeoutError rangeError"
  by (simp add: isTimeoutError_def rangeError_def)

text \<open>
  C4, as stated, fails twice. A closure that completes within the deadline by throwing an
  error with the code \<open>ERR_SCRIPT_EXECUTION_TIMEOUT\<close> has its error propagated
  unchanged, and \<open>isTimeoutError\<close> is true of it although the deadline was not
  breached. And a closure that completes normally after 3 ms under the timeout
  \<open>Infinity\<close> does not have its result returned: the sandbox refuses the timeout.
\<close>

theorem nested_timeout_is_taken_for_breach:
  "outcome nested_guard = Throws inner_timeout
   \<and> completes (cost nested_guard) (Some (Fin 1000))
   \<and> functionTimeout nested_guard (Some (Fin 1000)) createContext = Some (Inl inner_timeout)
   \<and> isTimeoutError inner_timeout
   \<and> completes (cost (Thunk (Ms 3) (Returns (Val ())))) (Some PosInf)
   \<and> functionTimeout (Thunk (Ms 3) (Returns (Val ()))) (Some PosInf) createContext
       = Some (Inl rangeError)"
  by (simp add: functionTimeout_eq nested_guard_def inner_timeout_def isTimeoutError_def)

text \<open>
  C4, amended: under a timeout the sandbox takes (none, or a whole number of
  milliseconds from 1 to 4294967295) the wrapper returns the function's result unchanged
  (\<open>undefined\<close> included) when the function completes normally within the deadline,
  on any context; when a deadline is enforced and breached it raises an error of which
  \<open>isTimeoutError\<close> is true; an exception of the function propagates unchanged, and
  \<open>isTimeoutError\<close> is false of it exactly when it does not carry the code
  \<open>ERR_SCRIPT_EXECUTION_TIMEOUT\<close> itself. Under any other timeout the wrapper raises
  the range error of the sandbox, of which \<open>isTimeoutError\<close> is false.
\<close>

theorem functionTimeout_contract:
  "(accepted t \<and> completes (cost f) t \<and> outcome f = Returns v \<longrightarrow>
      functionTimeout f t ctx = Some (Inr v))
   \<and> (accepted t \<and> \<not> completes (cost f) t \<and> enforced t \<longrightarrow>
        (\<exists>e. functionTimeout f t ctx = Some (Inl e) \<and> isTimeoutError e))
   \<and> (accepted t \<and> completes (cost f) t \<and> outcome f = Throws e \<longrightarrow>
        functionTimeout f t ctx = Some (Inl e)
        \<and> (isTimeoutError e \<longleftrightarrow> code e = Some ''ERR_SCRIPT_EXECUTION_TIMEOUT''))
   \<and> (\<not> accepted t \<longrightarrow>
        functionTimeout f t ctx = Some (Inl rangeError) \<and> \<not> isTimeoutError rangeError)"
  using isTimeoutError_timeoutError isTimeoutError_rangeError
  by (auto simp: functionTimeout_eq isTimeoutError_def)

theorem functionTimeout_contract_witness:
  "functionTimeout (Thunk (Ms 3) (Returns Undefined)) (Some (Fin 10)) createContext
     = Some (Inr (Undefined :: unit js))
   \<and> (\<exists>e. functionTimeout (Thunk Forever (Returns (Val ()))) (Some (Fin 10)) createContext
            = Some (Inl e) \<and> isTimeoutError e)
   \<and> functionTimeout (Thunk (Ms 3) (Throws typeError)) (Some (Fin 10))
        (createContext :: unit vmContext) = Some (Inl typeError)
   \<and> \<not> isTimeoutError typeError
   \<and> functionTimeout (Thunk (Ms 3) (Returns (Val ()))) (Some (Fin 0)) createContext
        = Some (Inl rangeError)
   \<and> \<not> isTimeoutError rangeError"
proof -
  have d: "code typeError \<noteq> Some ''ERR_SCRIPT_EXECUTION_TIMEOUT''"
    by (simp add: typeError_def)
  have a: "functionTimeout (Thunk (Ms 3) (Returns Undefined)) (Some (Fin 10)) createContext
     = Some (Inr (Undefined :: unit js))"
    using functionTimeout_contract
      [of "Some (Fin 10)" "Thunk (Ms 3) (Returns (Undefined :: unit js))" Undefined
          createContext typeError]
    by simp
  have b: "\<exists>e. functionTimeout (Thunk Forever (Returns (Val ()))) (Some (Fin 10)) createContext
            = Some (Inl e) \<and> isTimeoutError e"
    using functionTimeout_contract
      [of "Some (Fin 10)" "Thunk Forever (Returns (Val ()))" Undefined createContext typeError]
    by simp
  have c: "functionTimeout (Thunk (Ms 3) (Throws typeError)) (Some (Fin 10))
        (createContext :: unit vmContext) = Some (Inl typeError)
       \<and> \<not> isTimeoutError typeError"
    using d functionTimeout_contract
      [of "Some (Fin 10)" "Thunk (Ms 3) (Throws typeError :: unit outcome)" Undefined
          createContext typeError]
    by simp
  have e: "functionTimeout (Thunk (Ms 3) (Returns (Val ()))) (Some (Fin 0)) createContext
        = Some (Inl rangeError) \<and> \<not> isTimeoutError rangeError"
    using functionTimeout_contract
      [of "Some (Fin 0)" "Thunk (Ms 3) (Returns (Val ()))" Undefined createContext typeError]
    by simp
  from a b c e show ?thesis by simp
qed

section \<open>The precondition of matches\<close>

text \<open>
  C5: for a regex without the global flag, the call of \<open>matches\<close> itself fails with the
  usage error, which is not a timeout error and tells the caller to use \<open>firstMatch()\<close>;
  no iterable is returned, so nothing is left to fail at iteration, and the call involves
  neither the engine nor the sandbox.
\<close>

theorem matches_requires_global:
  "\<not> global (cells h regex) \<Longrightarrow>
     matches h regex string options = Inl usageError
     \<and> \<not> isTimeoutError usageError
     \<and> message usageError =
         ''The regex must have the global flag, otherwise, use `firstMatch()` instead''"
  by (simp add: matches_def usageError_def isTimeoutError_def)

theorem matches_requires_global_witness:
  "\<not> global (cells plain_heap 0)
   \<and> matches plain_heap 0 ''abc'' \<lparr>opt_timeout = Some (Fin 50), opt_matchTimeout = None\<rparr>
       = Inl usageError
   \<and> \<not> isTimeoutError usageError"
proof -
  have g: "\<not> global (cells plain_heap 0)"
    by (simp add: global_def plain_heap_def)
  from matches_requires_global [OF g] g show ?thesis by simp
qed

section \<open>The single-shot entries\<close>

text \<open>
  The clone starts at position 0 whatever the scan position of the original, and what
  the closure does to the store stays in the cell of the clone.
\<close>

lemma scan_lastIndex: "scan eng (r\<lparr>lastIndex := k\<rparr>) s i = scan eng r s i"
proof (induction eng r s i rule: scan.induct)
  case (1 eng r s i)
  show ?case
  proof (cases "length s < i \<or> sticky r \<or> eng (source r) (flags r) s i \<noteq> None")
    case True
    then show ?thesis
      by (auto simp: scan.simps [of eng r s i] scan.simps [of eng "r\<lparr>lastIndex := k\<rparr>" s i] sticky_def)
  next
    case False
    with "1.IH" have "scan eng (r\<lparr>lastIndex := k\<rparr>) s (Suc i) = scan eng r s (Suc i)"
      by simp
    with False show ?thesis
      by (simp add: scan.simps [of eng r s i] scan.simps [of eng "r\<lparr>lastIndex := k\<rparr>" s i] sticky_def)
  qed
qed

lemma exec_obj_fresh:
  "fst (exec_obj eng (r\<lparr>lastIndex := 0\<rparr>) s) =
     (case scan eng r s 0 of None \<Rightarrow> None | Some (p, f) \<Rightarrow> Some (mkResult s p f))"
  by (simp add: exec_obj_def Let_def scan_lastIndex global_def sticky_def split: option.splits)

lemma exec_clone:
  "fst (exec eng (snd (structuredClone h r)) (fst (structuredClone h r)) s) =
     (case scan eng (cells h r) s 0 of None \<Rightarrow> None | Some (p, f) \<Rightarrow> Some (mkResult s p f))"
  using exec_obj_fresh [of eng "cells h r" s]
  by (simp add: exec_def structuredClone_def case_prod_unfold Let_def)

lemma exec_clone_frame:
  "a \<noteq> used h \<Longrightarrow>
     cells (snd (exec eng (snd (structuredClone h r)) (fst (structuredClone h r)) s)) a = cells h a"
  by (simp add: exec_def structuredClone_def case_prod_unfold Let_def)

lemma test_clone:
  "fst (test eng (snd (structuredClone h r)) (fst (structuredClone h r)) s) =
     (scan eng (cells h r) s 0 \<noteq> None)"
  using exec_clone [of eng h r s]
  by (simp add: test_def case_prod_unfold Let_def split: option.splits)

lemma test_clone_frame:
  "a \<noteq> used h \<Longrightarrow>
     cells (snd (test eng (snd (structuredClone h r)) (fst (structuredClone h r)) s)) a = cells h a"
  using exec_clone_frame [of a h eng r s]
  by (simp add: test_def case_prod_unfold Let_def)

lemma isMatch_eq:
  "isMatch eng w h regex string timeout =
     (if \<not> accepted timeout then Some (Inl rangeError, h)
      else if completes (takes w) timeout then
        (case fault w of
           None \<Rightarrow>
             Some (Inr (Val (scan eng (cells h regex) string 0 \<noteq> None)),
                   snd (test eng (snd (structuredClone h regex)) (fst (structuredClone h regex)) string))
         | Some e \<Rightarrow>
             if isTimeoutError e then Some (Inr (Val False), h) else Some (Inl e, h))
      else if enforced timeout then Some (Inr (Val False), h)
      else None)"
  using test_clone [of eng h regex string]
  by (simp add: isMatch_def functionTimeout_run_as isTimeoutError_timeoutError
      isTimeoutError_rangeError case_prod_unfold Let_def split: option.splits)

lemma firstMatch_eq:
  "firstMatch eng w h regex string timeout =
     (if \<not> accepted timeout then Some (Inl rangeError, h)
      else if completes (takes w) timeout then
        (case fault w of
           None \<Rightarrow>
             Some (case scan eng (cells h regex) string 0 of
                     None \<Rightarrow> Inr Undefined
                   | Some (p, f) \<Rightarrow> Inr (Val (resultToMatch (mkResult string p f))),
                   snd (exec eng (snd (structuredClone h regex)) (fst (structuredClone h regex)) string))
         | Some e \<Rightarrow>
             if isTimeoutError e then Some (Inr Undefined, h) else Some (Inl e, h))
      else if enforced timeout then Some (Inr Undefined, h)
      else None)"
  using exec_clone [of eng h regex string]
  by (simp add: firstMatch_def functionTimeout_run_as isTimeoutError_timeoutError
      isTimeoutError_rangeError case_prod_unfold Let_def split: option.splits)


text \<open>
  C7: \<open>isMatch\<close> returns the boolean that testing a clone of the regex against the
  string gives; when the guarded attempt raises an error of which \<open>isTimeoutError\<close> is
  true it returns \<open>false\<close>, and any other error of the attempt propagates unchanged.
  A breached deadline, under a timeout the sandbox takes, is such a timeout; the range
  error for a timeout it refuses is not, and propagates.
\<close>

theorem isMatch_contract:
  assumes "structuredClone h regex = (clone, h1)"
  shows "(case functionTimeout (run_as w (fst (test eng h1 clone string))) timeout createContext of
            None \<Rightarrow> isMatch eng w h regex string timeout = None
          | Some (Inr v) \<Rightarrow>
              v = Val (fst (test eng h1 clone string))
              \<and> map_option fst (isMatch eng w h regex string timeout) = Some (Inr v)
          | Some (Inl e) \<Rightarrow>
              map_option fst (isMatch eng w h regex string timeout) =
                Some (if isTimeoutError e then Inr (Val False) else Inl e))
         \<and> (accepted timeout \<and> \<not> completes (takes w) timeout \<and> enforced timeout \<longrightarrow>
              map_option fst (isMatch eng w h regex string timeout) = Some (Inr (Val False)))
         \<and> (\<not> accepted timeout \<longrightarrow>
              map_option fst (isMatch eng w h regex string timeout) = Some (Inl rangeError))"
  using assms
  by (auto simp: isMatch_def functionTimeout_run_as isTimeoutError_timeoutError
      isTimeoutError_rangeError Let_def case_prod_unfold split: option.splits)

lemma small_engine_scan_a1:
  "scan small_engine \<lparr>source = digits_source, flags = ''g'', lastIndex = k\<rparr> ''a1'' 0
     = Some (1, \<lparr>len = 1, caps = []\<rparr>)"
  by (simp add: scan.simps small_engine_def run_of_def digit_def Let_def sticky_def)

theorem isMatch_contract_witness:
  "map_option fst (isMatch small_engine calm digits_heap 0 ''a1'' (Some (Fin 50)))
     = Some (Inr (Val True))
   \<and> map_option fst (isMatch small_engine stuck digits_heap 0 ''a1'' (Some (Fin 50)))
     = Some (Inr (Val False))
   \<and> map_option fst (isMatch small_engine faulty digits_heap 0 ''a1'' (Some (Fin 50)))
     = Some (Inl engine_fault)
   \<and> map_option fst (isMatch small_engine calm digits_heap 0 ''a1'' (Some (Fin 0)))
     = Some (Inl rangeError)"
proof -
  have c: "structuredClone digits_heap 0 = (fst (structuredClone digits_heap 0), snd (structuredClone digits_heap 0))"
    by simp
  have t: "fst (test small_engine (snd (structuredClone digits_heap 0)) (fst (structuredClone digits_heap 0)) ''a1'') = True"
    by (simp add: test_clone digits_heap_def small_engine_scan_a1)
  have e: "\<not> isTimeoutError engine_fault"
    by (simp add: isTimeoutError_def engine_fault_def)
  from isMatch_contract [OF c, where w = calm and eng = small_engine and string = "''a1''"
        and timeout = "Some (Fin 50)"]
    isMatch_contract [OF c, where w = stuck and eng = small_engine and string = "''a1''"
        and timeout = "Some (Fin 50)"]
    isMatch_contract [OF c, where w = faulty and eng = small_engine and string = "''a1''"
        and timeout = "Some (Fin 50)"]
    isMatch_contract [OF c, where w = calm and eng = small_engine and string = "''a1''"
        and timeout = "Some (Fin 0)"] t e
  show ?thesis
    by (simp add: functionTimeout_run_as calm_def stuck_def faulty_def)
qed

text \<open>
  The text of a group that has a name is in the array at the number of the group and in
  \<open>groups\<close> under the name.
\<close>

lemma named_of_nth:
  assumes "distinct (List.map_filter fst cs)" and "i < length cs" and "fst (cs ! i) = Some name"
  shows "named_of cs name = snd (cs ! i)"
  using assms
proof (induction cs arbitrary: i)
  case Nil
  then show ?case by simp
next
  case (Cons c cs)
  obtain n v where c: "c = (n, v)" by (cases c)
  show ?case
  proof (cases i)
    case 0
    with Cons.prems c show ?thesis by simp
  next
    case (Suc j)
    with Cons.prems have j: "j < length cs" and nm: "fst (cs ! j) = Some name" by simp_all
    then have mem: "name \<in> set (List.map_filter fst cs)"
      by (force simp: map_filter_def)
    show ?thesis
    proof (cases n)
      case None
      with Cons.prems c have "distinct (List.map_filter fst cs)"
        by (simp add: map_filter_simps)
      from Cons.IH [OF this j nm] None c Suc show ?thesis by simp
    next
      case (Some k)
      with Cons.prems c have d: "distinct (List.map_filter fst cs)"
        and k: "k \<notin> set (List.map_filter fst cs)"
        by (simp_all add: map_filter_simps)
      from k mem have "name \<noteq> k" by auto
      with Cons.IH [OF d j nm] Some c Suc show ?thesis by simp
    qed
  qed
qed

lemma named_nth:
  assumes "distinct (List.map_filter fst cs)" and "i < length cs" and "fst (cs ! i) = Some name"
  shows "(case named cs of None \<Rightarrow> Map.empty | Some g \<Rightarrow> g) name = map snd cs ! i"
proof -
  from assms(2,3) have "\<not> list_all (\<lambda>c. fst c = None) cs"
    by (auto simp: list_all_length)
  with named_of_nth [OF assms] assms(2) show ?thesis
    by (simp add: named_def)
qed

lemma small_engine_scan_tagged:
  "scan small_engine (cells tagged_heap 0) ''a1'' 0
     = Some (1, \<lparr>len = 1, caps = [(Some ''n'', Some ''1''), (None, None)]\<rparr>)"
  by (simp add: scan.simps small_engine_def tagged_def tagged_heap_def tagged_source_def
      digits_source_def digit_def Let_def sticky_def)

text \<open>
  C8, as stated, fails: the field \<open>groups\<close> is not the list of the unnamed capture
  groups. For \<open>/(?<n>\d+)(x)?/\<close> on \<open>a1\<close> the group \<open>n\<close> captures \<open>1\<close> and the
  second group nothing; \<open>groups\<close> holds both, the capture of the named group first,
  where the unnamed capture groups are the second alone.
\<close>

theorem named_capture_is_in_groups:
  "scan small_engine (cells tagged_heap 0) ''a1'' 0
     = Some (1, \<lparr>len = 1, caps = [(Some ''n'', Some ''1''), (None, None)]\<rparr>)
   \<and> map_option fst (firstMatch small_engine calm tagged_heap 0 ''a1'' (Some (Fin 50)))
     = Some (Inr (Val \<lparr>match = ''1'', index = 1, groups = [Some ''1'', None],
                      namedGroups = [''n'' \<mapsto> ''1''], input = ''a1''\<rparr>))
   \<and> unnamed [(Some ''n'', Some ''1''), (None, None)] = [None]
   \<and> [Some ''1'', None] \<noteq> unnamed [(Some ''n'', Some ''1''), (None, None)]"
  by (simp add: small_engine_scan_tagged firstMatch_eq calm_def resultToMatch_def mkResult_def
      named_def unnamed_def)

text \<open>
  C8, amended: \<open>firstMatch\<close> returns \<open>undefined\<close>, the absent result, and no error,
  when the pattern has no match in the string and when the guarded attempt raises a
  timeout error; when there is a match it returns the record of the matched text, its
  start index, the text of every capture group of the pattern in the order of their
  numbers, the named groups included (each possibly absent), the mapping from the names
  of the named groups to their text, and the subject string, so that the text of a
  named group is in \<open>groups\<close> at the number of the group and in \<open>namedGroups\<close> under
  its name; any other error propagates, the range error for a timeout the sandbox
  refuses among them.
\<close>

theorem firstMatch_contract:
  "(accepted timeout \<and> completes (takes w) timeout \<and> fault w = None
      \<and> scan eng (cells h regex) string 0 = None \<longrightarrow>
      map_option fst (firstMatch eng w h regex string timeout) = Some (Inr Undefined))
   \<and> (accepted timeout \<and> completes (takes w) timeout \<and> fault w = None
        \<and> scan eng (cells h regex) string 0 = Some (p, f) \<longrightarrow>
      map_option fst (firstMatch eng w h regex string timeout) =
        Some (Inr (Val \<lparr>match = take (len f) (drop p string), index = p,
                         groups = map snd (caps f),
                         namedGroups = (case named (caps f) of None \<Rightarrow> Map.empty | Some g \<Rightarrow> g),
                         input = string\<rparr>))
      \<and> (\<forall>i name. distinct (List.map_filter fst (caps f)) \<and> i < length (caps f)
             \<and> fst (caps f ! i) = Some name \<longrightarrow>
           (case named (caps f) of None \<Rightarrow> Map.empty | Some g \<Rightarrow> g) name
             = map snd (caps f) ! i))
   \<and> (accepted timeout \<and> \<not> completes (takes w) timeout \<and> enforced timeout \<longrightarrow>
      map_option fst (firstMatch eng w h regex string timeout) = Some (Inr Undefined))
   \<and> (accepted timeout \<and> completes (takes w) timeout \<and> fault w = Some e \<longrightarrow>
      map_option fst (firstMatch eng w h regex string timeout) =
        Some (if isTimeoutError e then Inr Undefined else Inl e))
   \<and> (\<not> accepted timeout \<longrightarrow>
      map_option fst (firstMatch eng w h regex string timeout) = Some (Inl rangeError))"
  using named_nth [of "caps f"]
  by (simp add: firstMatch_eq resultToMatch_def mkResult_def)

lemma small_engine_scan_abc:
  "scan small_engine \<lparr>source = ''x+'', flags = [], lastIndex = 0\<rparr> ''abc'' 0 = None"
  by (simp add: scan.simps small_engine_def run_of_def digits_source_def Let_def sticky_def)

theorem firstMatch_contract_witness:
  "map_option fst (firstMatch small_engine calm plain_heap 0 ''abc'' (Some (Fin 50)))
     = Some (Inr Undefined)
   \<and> map_option fst (firstMatch small_engine calm tagged_heap 0 ''a1'' (Some (Fin 50)))
     = Some (Inr (Val \<lparr>match = ''1'', index = 1, groups = [Some ''1'', None],
                      namedGroups = [''n'' \<mapsto> ''1''], input = ''a1''\<rparr>))
   \<and> map_option fst (firstMatch small_engine stuck digits_heap 0 ''a1'' (Some (Fin 50)))
     = Some (Inr Undefined)
   \<and> map_option fst (firstMatch small_engine faulty digits_heap 0 ''a1'' (Some (Fin 50)))
     = Some (Inl engine_fault)
   \<and> map_option fst (firstMatch small_engine calm digits_heap 0 ''a1'' (Some (Fin 0)))
     = Some (Inl rangeError)"
proof -
  have n: "scan small_engine (cells plain_heap 0) ''abc'' 0 = None"
    by (simp add: plain_heap_def small_engine_scan_abc)
  have e: "\<not> isTimeoutError engine_fault"
    by (simp add: isTimeoutError_def engine_fault_def)
  from n small_engine_scan_tagged e
    firstMatch_contract [where w = calm and eng = small_engine and h = plain_heap and regex = 0
        and string = "''abc''" and timeout = "Some (Fin 50)"]
    firstMatch_contract [where w = calm and eng = small_engine and h = tagged_heap and regex = 0
        and string = "''a1''" and timeout = "Some (Fin 50)" and p = 1
        and f = "\<lparr>len = 1, caps = [(Some ''n'', Some ''1''), (None, None)]\<rparr>"]
    firstMatch_contract [where w = stuck and eng = small_engine and h = digits_heap and regex = 0
        and string = "''a1''" and timeout = "Some (Fin 50)"]
    firstMatch_contract [where w = faulty and eng = small_engine and h = digits_heap and regex = 0
        and string = "''a1''" and timeout = "Some (Fin 50)" and e = engine_fault]
    firstMatch_contract [where w = calm and eng = small_engine and h = digits_heap and regex = 0
        and string = "''a1''" and timeout = "Some (Fin 0)"]
  show ?thesis
    by (simp add: calm_def stuck_def faulty_def named_def)
qed

text \<open>
  The regex of the caller is only read, and only for its source and flags.
\<close>

lemma isMatch_frame:
  assumes "isMatch eng w h regex string timeout = Some (res, h')" and "a < used h"
  shows "cells h' a = cells h a"
  using assms test_clone_frame [of a h eng regex string]
  by (auto simp: isMatch_eq split: if_splits option.splits)

lemma isMatch_reads:
  assumes "source (cells g regex) = source (cells h regex)"
    and "flags (cells g regex) = flags (cells h regex)"
  shows "map_option fst (isMatch eng w g regex string timeout)
           = map_option fst (isMatch eng w h regex string timeout)"
proof -
  have "cells g regex = (cells h regex)\<lparr>lastIndex := lastIndex (cells g regex)\<rparr>"
    using assms by simp
  then have "scan eng (cells g regex) string 0 = scan eng (cells h regex) string 0"
    using scan_lastIndex [where r = "cells h regex" and k = "lastIndex (cells g regex)"] by simp
  then show ?thesis
    by (simp add: isMatch_eq split: option.splits)
qed

text \<open>
  C9: \<open>isMatch\<close> leaves every object of the caller as it was, the regex included; its
  result does not depend on the scan position of the regex, nor on the calls of
  \<open>isMatch\<close> made on the same regex before, so the results of two calls in a row do
  not depend on their order; the clone it tests has the source and flags of the regex
  and the scan position 0.
\<close>

theorem isMatch_leaves_regex:
  assumes "regex < used h"
  shows "(\<forall>res h'. isMatch eng w h regex string timeout = Some (res, h') \<longrightarrow>
            (\<forall>a < used h. cells h' a = cells h a))
         \<and> (\<forall>k. map_option fst
                  (isMatch eng w (h\<lparr>cells := (cells h)(regex := (cells h regex)\<lparr>lastIndex := k\<rparr>)\<rparr>)
                     regex string timeout)
               = map_option fst (isMatch eng w h regex string timeout))
         \<and> (\<forall>w1 s1 t1 res1 h1. isMatch eng w1 h regex s1 t1 = Some (res1, h1) \<longrightarrow>
               map_option fst (isMatch eng w h1 regex string timeout)
                 = map_option fst (isMatch eng w h regex string timeout))
         \<and> cells (snd (structuredClone h regex)) (fst (structuredClone h regex))
             = (cells h regex)\<lparr>lastIndex := 0\<rparr>"
proof (intro conjI allI impI)
  fix res h' a
  assume "isMatch eng w h regex string timeout = Some (res, h')" and "a < used h"
  then show "cells h' a = cells h a" by (rule isMatch_frame)
next
  fix k
  show "map_option fst
          (isMatch eng w (h\<lparr>cells := (cells h)(regex := (cells h regex)\<lparr>lastIndex := k\<rparr>)\<rparr>)
             regex string timeout)
        = map_option fst (isMatch eng w h regex string timeout)"
    by (rule isMatch_reads) simp_all
next
  fix w1 s1 t1 res1 h1
  assume "isMatch eng w1 h regex s1 t1 = Some (res1, h1)"
  then have "cells h1 regex = cells h regex"
    using assms by (rule isMatch_frame)
  then show "map_option fst (isMatch eng w h1 regex string timeout)
               = map_option fst (isMatch eng w h regex string timeout)"
    by (intro isMatch_reads) simp_all
next
  show "cells (snd (structuredClone h regex)) (fst (structuredClone h regex))
          = (cells h regex)\<lparr>lastIndex := 0\<rparr>"
    by (simp add: structuredClone_def)
qed


text \<open>
  For contrast, \<open>test\<close> on the regex itself, with the scan position 2 an earlier use
  has left, finds nothing in a string whose only digit is at position 1.
\<close>

lemma small_engine_scan_b:
  "scan small_engine \<lparr>source = digits_source, flags = ''g'', lastIndex = k\<rparr> ''b'' 0 = None"
  by (simp add: scan.simps small_engine_def run_of_def digit_def Let_def sticky_def)

lemma test_on_the_original:
  "fst (test small_engine digits_heap 0 ''a1'') = False"
  by (simp add: test_def exec_def exec_obj_def digits_heap_def global_def scan.simps
      small_engine_def run_of_def digit_def Let_def sticky_def)

theorem isMatch_leaves_regex_witness:
  "0 < used digits_heap
   \<and> map_option fst (isMatch small_engine calm digits_heap 0 ''a1'' None) = Some (Inr (Val True))
   \<and> map_option (\<lambda>p. cells (snd p) 0) (isMatch small_engine calm digits_heap 0 ''a1'' None)
       = Some (cells digits_heap 0)
   \<and> (case isMatch small_engine calm digits_heap 0 ''a1'' None of
         None \<Rightarrow> False
       | Some (r1, h1) \<Rightarrow>
           map_option fst (isMatch small_engine calm h1 0 ''b'' None) = Some (Inr (Val False)))
   \<and> (case isMatch small_engine calm digits_heap 0 ''b'' None of
         None \<Rightarrow> False
       | Some (r1, g1) \<Rightarrow>
           map_option fst (isMatch small_engine calm g1 0 ''a1'' None) = Some (Inr (Val True)))
   \<and> fst (test small_engine digits_heap 0 ''a1'') = False"
proof -
  have u: "0 < used digits_heap"
    by (simp add: digits_heap_def)
  note frame = isMatch_leaves_regex [OF u, where eng = small_engine and w = calm]
  have a: "map_option fst (isMatch small_engine calm digits_heap 0 ''a1'' None)
             = Some (Inr (Val True))"
    by (simp add: isMatch_eq calm_def digits_heap_def small_engine_scan_a1)
  have b: "map_option fst (isMatch small_engine calm digits_heap 0 ''b'' None)
             = Some (Inr (Val False))"
    by (simp add: isMatch_eq calm_def digits_heap_def small_engine_scan_b)
  from a obtain r1 h1 where a1: "isMatch small_engine calm digits_heap 0 ''a1'' None = Some (r1, h1)"
    by (cases "isMatch small_engine calm digits_heap 0 ''a1'' None") auto
  from b obtain q1 g1 where b1: "isMatch small_engine calm digits_heap 0 ''b'' None = Some (q1, g1)"
    by (cases "isMatch small_engine calm digits_heap 0 ''b'' None") auto
  from frame [where string = "''a1''" and timeout = None] a1 u
  have c: "cells h1 0 = cells digits_heap 0" by blast
  from frame [where string = "''b''" and timeout = None] a1 b
  have d: "map_option fst (isMatch small_engine calm h1 0 ''b'' None) = Some (Inr (Val False))"
    by metis
  from frame [where string = "''a1''" and timeout = None] b1 a
  have e: "map_option fst (isMatch small_engine calm g1 0 ''a1'' None) = Some (Inr (Val True))"
    by metis
  from u a a1 b1 c d e test_on_the_original show ?thesis by simp
qed

section \<open>The loop of matches\<close>

































section \<open>Concrete runs\<close>

lemma ceiling_calm: "\<lceil>2 / 5 :: rat\<rceil> = 1" "\<lceil>6 / 5 :: rat\<rceil> = 2"
  by (simp_all add: ceiling_eq_iff)

lemmas evaluate =
  iterate_def loop.simps step_def Let_def next_match_def exec_obj_def matchAll_def new_cursor_def global_def
  sticky_def scan.simps small_engine_def run_of_def digit_def functionTimeout_run_as
  mkResult_def resultToMatch_def scenario_def scenario_heap_def digits_heap_def calm_def
  slow_clock_def ceiling_calm found1_def found22_def found333_def timeoutError_def
  rangeError_def isTimeoutError_def named_def

lemma matches_scenario:
  "matches scenario_heap 0 ''a1 b22 c333'' \<lparr>opt_timeout = t, opt_matchTimeout = mt\<rparr>
     = Inr (scenario (case t of None \<Rightarrow> PosInf | Some x \<Rightarrow> x)
                     (case mt of None \<Rightarrow> PosInf | Some x \<Rightarrow> x))"
  by (simp add: matches_def scenario_def scenario_heap_def global_def)





lemma run_1:
  "fst (iterate small_engine (\<lambda>k. calm) 0 scenario_heap (scenario (Fin 1) PosInf)) =
     \<lparr>yielded = [found1], ending = Raised rangeError,
      calls = [\<lparr>before = Fin 1, deadline = Some (Fin 1), went = Yielded, after = Fin 0\<rparr>,
               \<lparr>before = Fin 0, deadline = Some (Fin 0), went = Threw rangeError, after = Fin 0\<rparr>],
      left = Fin 0\<rparr>"
  by (simp add: evaluate)


lemma run_slow:
  "fst (iterate small_engine (\<lambda>k. slow_clock) 0 scenario_heap (scenario (Fin 1) PosInf)) =
     \<lparr>yielded = [found1], ending = Raised rangeError,
      calls = [\<lparr>before = Fin 1, deadline = Some (Fin 1), went = Yielded, after = Fin (- 1)\<rparr>,
               \<lparr>before = Fin (- 1), deadline = Some (Fin (- 1)), went = Threw rangeError,
                after = Fin (- 1)\<rparr>],
      left = Fin (- 1)\<rparr>"
  by (simp add: evaluate)






section \<open>The budget of an iteration\<close>



text \<open>
  C2: the loop neither checks nor clamps the budget between its steps. With the timeout 1
  and a first step that the stopwatch rounds up to 1 ms, the budget is 0 after the first
  match; the next step is started all the same and hands the timeout 0 to the sandbox,
  which refuses it, and since the range error is not a timeout error the iteration,
  having yielded the match, raises it to its consumer. When the stopwatch reads 1.2 ms
  around the first call, the budget is left at -1 and the run ends in the same way.
\<close>

theorem spent_budget_reaches_sandbox:
  "matches scenario_heap 0 ''a1 b22 c333'' \<lparr>opt_timeout = Some (Fin 1), opt_matchTimeout = None\<rparr>
     = Inr (scenario (Fin 1) PosInf)
   \<and> fst (iterate small_engine (\<lambda>k. calm) 0 scenario_heap (scenario (Fin 1) PosInf)) =
       \<lparr>yielded = [found1], ending = Raised rangeError,
        calls = [\<lparr>before = Fin 1, deadline = Some (Fin 1), went = Yielded, after = Fin 0\<rparr>,
                 \<lparr>before = Fin 0, deadline = Some (Fin 0), went = Threw rangeError,
                  after = Fin 0\<rparr>],
        left = Fin 0\<rparr>
   \<and> fst (iterate small_engine (\<lambda>k. slow_clock) 0 scenario_heap (scenario (Fin 1) PosInf)) =
       \<lparr>yielded = [found1], ending = Raised rangeError,
        calls = [\<lparr>before = Fin 1, deadline = Some (Fin 1), went = Yielded, after = Fin (- 1)\<rparr>,
                 \<lparr>before = Fin (- 1), deadline = Some (Fin (- 1)), went = Threw rangeError,
                  after = Fin (- 1)\<rparr>],
        left = Fin (- 1)\<rparr>
   \<and> \<not> isTimeoutError rangeError"
  by (simp add: matches_scenario run_1 run_slow isTimeoutError_rangeError)





section \<open>The sequence of matches\<close>




end
